theory Spec2Isabelle
  imports Main
begin

section \<open>Python text\<close>

text \<open>
  A Python \<open>str\<close> is a sequence of Unicode code points, so text is a list of code
  points here. \<open>str\<close> turns a literal into its code points.
\<close>

type_synonym pystr = "nat list"

definition str :: "string \<Rightarrow> pystr" where
  "str = map of_char"

definition ord :: "char \<Rightarrow> nat" where
  "ord c = of_char c"

text \<open>
  \<open>str.isspace\<close> for one code point; the same set is what \<open>\s\<close> matches in a
  \<open>str\<close> pattern of \<open>re\<close>.
\<close>

definition isspace :: "nat \<Rightarrow> bool" where
  "isspace c \<longleftrightarrow>
     (9 \<le> c \<and> c \<le> 13) \<or> (28 \<le> c \<and> c \<le> 32) \<or> c = 133 \<or> c = 160 \<or> c = 5760 \<or>
     (8192 \<le> c \<and> c \<le> 8202) \<or> c = 8232 \<or> c = 8233 \<or> c = 8239 \<or> c = 8287 \<or> c = 12288"

text \<open>\<open>s.strip(chars)\<close> and \<open>s.strip()\<close>: drop the characters at both ends.\<close>

definition strip_where :: "(nat \<Rightarrow> bool) \<Rightarrow> pystr \<Rightarrow> pystr" where
  "strip_where p s = rev (dropWhile p (rev (dropWhile p s)))"

definition strip :: "pystr \<Rightarrow> pystr" where
  "strip s = strip_where isspace s"

definition strip_char :: "nat \<Rightarrow> pystr \<Rightarrow> pystr" where
  "strip_char q s = strip_where (\<lambda>c. c = q) s"

text \<open>
  \<open>s.lower()\<close> on the letters A to Z. The classifier lowers only a text it has just
  found in the list of supported operations, which holds no other letter.
\<close>

definition lower_cp :: "nat \<Rightarrow> nat" where
  "lower_cp c = (if 65 \<le> c \<and> c \<le> 90 then c + 32 else c)"

definition lower :: "pystr \<Rightarrow> pystr" where
  "lower s = map lower_cp s"

text \<open>\<open>s.split(sep)\<close> for a separator of one character.\<close>

fun split_on :: "nat \<Rightarrow> pystr \<Rightarrow> pystr list" where
  "split_on d [] = [[]]"
| "split_on d (c # s) =
     (if c = d then [] # split_on d s
      else (case split_on d s of [] \<Rightarrow> [[c]] | x # xs \<Rightarrow> (c # x) # xs))"

definition bar :: nat where
  "bar = 124"

section \<open>Operation classifier and router\<close>

definition supported_operations :: "pystr list" where
  "supported_operations = [str ''find'', str ''insert'', str ''update'', str ''delete'']"

text \<open>
  \<open>operation_detection\<close>, as a function of the oracle's answer \<open>response.content\<close>;
  the value returned is the new \<open>mongo_op\<close>.
\<close>

definition operation_detection :: "pystr \<Rightarrow> pystr" where
  "operation_detection content =
     (if strip content \<in> set supported_operations then lower (strip content)
      else str ''invalid'')"

text \<open>
  \<open>router\<close>: \<open>mongo_op\<close> is \<open>str | None\<close>; the value returned is \<open>next_node\<close>.
\<close>

definition router :: "pystr option \<Rightarrow> pystr" where
  "router operation =
     (if operation = Some (str ''insert'') then str ''mongo_insert''
      else if operation = Some (str ''find'') then str ''mongo_find''
      else if operation = Some (str ''update'') then str ''mongo_update''
      else if operation = Some (str ''delete'') then str ''mongo_delete''
      else str ''invalid_operation'')"

text \<open>
  The nodes of the graph, and \<open>path_map\<close> of the conditional edge after the router
  composed with \<open>add_node\<close>: the handler that runs for a value of \<open>next_node\<close>.
\<close>

datatype handler = Mongo_insert | Mongo_find | Mongo_update | Mongo_delete | Invalid_operation

definition path_map :: "pystr \<Rightarrow> handler option" where
  "path_map n =
     (if n = str ''mongo_insert'' then Some Mongo_insert
      else if n = str ''mongo_find'' then Some Mongo_find
      else if n = str ''mongo_update'' then Some Mongo_update
      else if n = str ''mongo_delete'' then Some Mongo_delete
      else if n = str ''invalid_operation'' then Some Invalid_operation
      else None)"

section \<open>Python values and exceptions\<close>

text \<open>
  The values \<open>json.loads\<close> can return: \<open>None\<close>, \<open>bool\<close>, \<open>int\<close>, \<open>float\<close>,
  \<open>str\<close>, \<open>list\<close> and \<open>dict\<close>. A \<open>dict\<close> is the list of its items in insertion
  order, with no key twice. A \<open>float\<close> read from a literal is kept as the exact decimal
  \<open>m * 10 ^ e\<close> of that literal (\<open>PFloat m e\<close>), and \<open>NaN\<close>, \<open>Infinity\<close> and
  \<open>-Infinity\<close> have their own constructors: all the handlers ask of a float is whether it
  is zero.
\<close>

datatype pyval =
    PNone
  | PBool bool
  | PInt int
  | PFloat int int
  | PNaN
  | PInf bool
  | PStr pystr
  | PList "pyval list"
  | PDict "(pystr \<times> pyval) list"

text \<open>
  The exceptions of the handlers. \<open>JSONDecodeError\<close> is raised by \<open>json.loads\<close>,
  \<open>AttributeError\<close> by \<open>.strip()\<close> on a value that is no \<open>str\<close>, \<open>TypeError\<close> by
  \<open>in\<close> and by a subscript on a value that does not support them, \<open>ValueError\<close> by
  unpacking a list of the wrong length, \<open>KeyError\<close> by a subscript with a missing key;
  \<open>StoreError\<close> is whatever the database driver raises, with its text.
\<close>

datatype pyerr =
    JSONDecodeError
  | AttributeError
  | TypeError
  | ValueError
  | KeyError
  | StoreError pystr

text \<open>\<open>d[k] = v\<close>: a key already present keeps its place and takes the new value.\<close>

fun dict_set :: "pystr \<Rightarrow> pyval \<Rightarrow> (pystr \<times> pyval) list \<Rightarrow> (pystr \<times> pyval) list" where
  "dict_set k v [] = [(k, v)]"
| "dict_set k v ((k', v') # kvs) =
     (if k' = k then (k', v) # kvs else (k', v') # dict_set k v kvs)"

section \<open>The three substitutions of the normalizer\<close>

definition sq :: nat where
  "sq = 39"

definition dq :: nat where
  "dq = 34"

text \<open>
  \<open>re.sub\<close> tries the pattern at each position from the left, replaces a match and goes
  on behind it. None of the three patterns matches the empty text.

  In each pattern, every repetition (\<open>\s*\<close>, \<open>[^']+\<close>) is followed by a character that
  the repetition itself cannot match, so the greedy match is the only one and backtracking
  never finds another: \<open>takeWhile\<close> and \<open>dropWhile\<close> compute it.

  \<open>match_key\<close> is \<^verbatim>\<open>([{,]\s*)'([^']+)'\s*:\<close> at the start of the text, with the
  replacement \<^verbatim>\<open>\1"\2":\<close>; it returns the replacement and the text behind the match.
\<close>

definition match_key :: "pystr \<Rightarrow> (pystr \<times> pystr) option" where
  "match_key s =
     (case s of
        [] \<Rightarrow> None
      | c # s1 \<Rightarrow>
          if c = ord CHR ''{'' \<or> c = ord CHR '','' then
            (case dropWhile isspace s1 of
               [] \<Rightarrow> None
             | q # s2 \<Rightarrow>
                 if q = sq \<and> takeWhile (\<lambda>x. x \<noteq> sq) s2 \<noteq> [] then
                   (case dropWhile (\<lambda>x. x \<noteq> sq) s2 of
                      [] \<Rightarrow> None
                    | q' # s3 \<Rightarrow>
                        (case dropWhile isspace s3 of
                           [] \<Rightarrow> None
                         | d # s4 \<Rightarrow>
                             if d = ord CHR '':'' then
                               Some (c # takeWhile isspace s1 @ [dq] @
                                     takeWhile (\<lambda>x. x \<noteq> sq) s2 @ [dq, ord CHR '':''], s4)
                             else None))
                 else None)
          else None)"

text \<open>
  \<open>match_value\<close> is \<^verbatim>\<open>:\s*'([^']+)'(\s*[},])\<close> with the replacement
  \<^verbatim>\<open>: "\1"\2\<close>.
\<close>

definition match_value :: "pystr \<Rightarrow> (pystr \<times> pystr) option" where
  "match_value s =
     (case s of
        [] \<Rightarrow> None
      | c # s1 \<Rightarrow>
          if c = ord CHR '':'' then
            (case dropWhile isspace s1 of
               [] \<Rightarrow> None
             | q # s2 \<Rightarrow>
                 if q = sq \<and> takeWhile (\<lambda>x. x \<noteq> sq) s2 \<noteq> [] then
                   (case dropWhile (\<lambda>x. x \<noteq> sq) s2 of
                      [] \<Rightarrow> None
                    | q' # s3 \<Rightarrow>
                        (case dropWhile isspace s3 of
                           [] \<Rightarrow> None
                         | d # s4 \<Rightarrow>
                             if d = ord CHR ''}'' \<or> d = ord CHR '','' then
                               Some ([ord CHR '':'', ord CHR '' '', dq] @
                                     takeWhile (\<lambda>x. x \<noteq> sq) s2 @ [dq] @
                                     takeWhile isspace s3 @ [d], s4)
                             else None))
                 else None)
          else None)"

text \<open>\<open>match_id\<close> is the literal pattern \<^verbatim>\<open>"id":\<close> with the replacement \<^verbatim>\<open>"_id":\<close>.\<close>

definition id_key :: pystr where
  "id_key = dq # str ''id'' @ [dq, ord CHR '':'']"

definition match_id :: "pystr \<Rightarrow> (pystr \<times> pystr) option" where
  "match_id s =
     (if take 5 s = id_key then Some (dq # str ''_id'' @ [dq, ord CHR '':''], drop 5 s)
      else None)"

lemma dropWhile_Cons_length: "dropWhile p xs = y # ys \<Longrightarrow> length ys < length xs"
  using length_dropWhile_le[of p xs] by simp

lemma match_key_length:
  assumes "match_key s = Some (rep, r)"
  shows "length r < length s"
proof -
  from assms obtain c s1 where s: "s = c # s1"
    by (cases s) (auto simp: match_key_def)
  from assms s obtain q s2 where d1: "dropWhile isspace s1 = q # s2"
    by (cases "dropWhile isspace s1") (auto simp: match_key_def simp del: dropWhile_eq_Nil_conv split: if_splits)
  from assms s d1 obtain q' s3 where d2: "dropWhile (\<lambda>x. x \<noteq> sq) s2 = q' # s3"
    by (cases "dropWhile (\<lambda>x. x \<noteq> sq) s2") (auto simp: match_key_def simp del: dropWhile_eq_Nil_conv split: if_splits)
  from assms s d1 d2 obtain d s4 where d3: "dropWhile isspace s3 = d # s4"
    by (cases "dropWhile isspace s3") (auto simp: match_key_def simp del: dropWhile_eq_Nil_conv split: if_splits)
  from assms s d1 d2 d3 have "r = s4"
    by (auto simp: match_key_def simp del: dropWhile_eq_Nil_conv split: if_splits)
  with dropWhile_Cons_length[OF d1] dropWhile_Cons_length[OF d2] dropWhile_Cons_length[OF d3] s
  show ?thesis by simp
qed

lemma match_value_length:
  assumes "match_value s = Some (rep, r)"
  shows "length r < length s"
proof -
  from assms obtain c s1 where s: "s = c # s1"
    by (cases s) (auto simp: match_value_def)
  from assms s obtain q s2 where d1: "dropWhile isspace s1 = q # s2"
    by (cases "dropWhile isspace s1") (auto simp: match_value_def simp del: dropWhile_eq_Nil_conv split: if_splits)
  from assms s d1 obtain q' s3 where d2: "dropWhile (\<lambda>x. x \<noteq> sq) s2 = q' # s3"
    by (cases "dropWhile (\<lambda>x. x \<noteq> sq) s2") (auto simp: match_value_def simp del: dropWhile_eq_Nil_conv split: if_splits)
  from assms s d1 d2 obtain d s4 where d3: "dropWhile isspace s3 = d # s4"
    by (cases "dropWhile isspace s3") (auto simp: match_value_def simp del: dropWhile_eq_Nil_conv split: if_splits)
  from assms s d1 d2 d3 have "r = s4"
    by (auto simp: match_value_def simp del: dropWhile_eq_Nil_conv split: if_splits)
  with dropWhile_Cons_length[OF d1] dropWhile_Cons_length[OF d2] dropWhile_Cons_length[OF d3] s
  show ?thesis by simp
qed

lemma match_id_length:
  assumes "match_id s = Some (rep, r)"
  shows "length r < length s"
proof -
  from assms have t: "take 5 s = id_key" and r: "r = drop 5 s"
    by (auto simp: match_id_def split: if_splits)
  from t have "s \<noteq> []" by (auto simp: id_key_def)
  with r show ?thesis by simp
qed

function sub_key :: "pystr \<Rightarrow> pystr" where
  "sub_key [] = []"
| "sub_key (c # s) =
     (case match_key (c # s) of
        None \<Rightarrow> c # sub_key s
      | Some (rep, r) \<Rightarrow> rep @ sub_key r)"
  by pat_completeness auto
termination
proof (relation "measure length", goal_cases)
  case (3 c s x2 rep r)
  then have "match_key (c # s) = Some (rep, r)" by simp
  from match_key_length[OF this] show ?case by simp
qed simp_all

function sub_value :: "pystr \<Rightarrow> pystr" where
  "sub_value [] = []"
| "sub_value (c # s) =
     (case match_value (c # s) of
        None \<Rightarrow> c # sub_value s
      | Some (rep, r) \<Rightarrow> rep @ sub_value r)"
  by pat_completeness auto
termination
proof (relation "measure length", goal_cases)
  case (3 c s x2 rep r)
  then have "match_value (c # s) = Some (rep, r)" by simp
  from match_value_length[OF this] show ?case by simp
qed simp_all

function sub_id :: "pystr \<Rightarrow> pystr" where
  "sub_id [] = []"
| "sub_id (c # s) =
     (case match_id (c # s) of
        None \<Rightarrow> c # sub_id s
      | Some (rep, r) \<Rightarrow> rep @ sub_id r)"
  by pat_completeness auto
termination
proof (relation "measure length", goal_cases)
  case (3 c s x2 rep r)
  then have "match_id (c # s) = Some (rep, r)" by simp
  from match_id_length[OF this] show ?case by simp
qed simp_all

section \<open>\<open>json.loads\<close>\<close>

text \<open>
  The decoder of the standard library, as its scanner reads a text: \<open>scan_once\<close> reads
  one value and returns it with the text behind it, \<open>parse_object\<close> and \<open>parse_array\<close>
  read the members after the opening bracket. Every failure of the decoder is a
  \<open>JSONDecodeError\<close>, so the scanner returns \<open>None\<close> for all of them. The limits of the
  interpreter (recursion depth, digits of an \<open>int\<close>) are not part of the model.
\<close>

definition json_ws :: "nat \<Rightarrow> bool" where
  "json_ws c \<longleftrightarrow> c = 32 \<or> c = 9 \<or> c = 10 \<or> c = 13"

definition skip_ws :: "pystr \<Rightarrow> pystr" where
  "skip_ws s = dropWhile json_ws s"

definition isdigit :: "nat \<Rightarrow> bool" where
  "isdigit c \<longleftrightarrow> 48 \<le> c \<and> c \<le> 57"

definition hexval :: "nat \<Rightarrow> nat option" where
  "hexval c =
     (if 48 \<le> c \<and> c \<le> 57 then Some (c - 48)
      else if 97 \<le> c \<and> c \<le> 102 then Some (c - 87)
      else if 65 \<le> c \<and> c \<le> 70 then Some (c - 55)
      else None)"

definition decode_uXXXX :: "pystr \<Rightarrow> (nat \<times> pystr) option" where
  "decode_uXXXX s =
     (case s of
        a # b # c # d # r \<Rightarrow>
          (case (hexval a, hexval b, hexval c, hexval d) of
             (Some x, Some y, Some z, Some w) \<Rightarrow> Some (((x * 16 + y) * 16 + z) * 16 + w, r)
           | _ \<Rightarrow> None)
      | _ \<Rightarrow> None)"

definition unescape :: "nat \<Rightarrow> nat option" where
  "unescape e =
     (if e = dq then Some dq
      else if e = ord CHR 0x5C then Some (ord CHR 0x5C)
      else if e = ord CHR ''/'' then Some (ord CHR ''/'')
      else if e = ord CHR ''b'' then Some 8
      else if e = ord CHR ''f'' then Some 12
      else if e = ord CHR ''n'' then Some 10
      else if e = ord CHR ''r'' then Some 13
      else if e = ord CHR ''t'' then Some 9
      else None)"

definition escape_u :: "pystr \<Rightarrow> (nat \<times> pystr) option" where
  "escape_u s =
     (case decode_uXXXX s of
        None \<Rightarrow> None
      | Some (uni, r) \<Rightarrow>
          if 0xD800 \<le> uni \<and> uni \<le> 0xDBFF \<and> take 2 r = [ord CHR 0x5C, ord CHR ''u''] then
            (case decode_uXXXX (drop 2 r) of
               None \<Rightarrow> None
             | Some (uni2, r2) \<Rightarrow>
                 if 0xDC00 \<le> uni2 \<and> uni2 \<le> 0xDFFF
                 then Some (0x10000 + ((uni - 0xD800) * 1024 + (uni2 - 0xDC00)), r2)
                 else Some (uni, r))
          else Some (uni, r))"

lemma decode_uXXXX_length: "decode_uXXXX s = Some (u, r) \<Longrightarrow> length r < length s"
  by (auto simp: decode_uXXXX_def split: list.splits option.splits)

lemma escape_u_length: "escape_u s = Some (u, r) \<Longrightarrow> length r < length s"
  by (auto simp: escape_u_def split: option.splits if_splits dest!: decode_uXXXX_length)

function scanstring :: "pystr \<Rightarrow> pystr \<Rightarrow> (pystr \<times> pystr) option" where
  "scanstring acc [] = None"
| "scanstring acc (c # s) =
     (if c = dq then Some (rev acc, s)
      else if c = ord CHR 0x5C then
        (case s of
           [] \<Rightarrow> None
         | e # s' \<Rightarrow>
             if e = ord CHR ''u'' then
               (case escape_u s' of
                  None \<Rightarrow> None
                | Some (uni, r) \<Rightarrow> scanstring (uni # acc) r)
             else
               (case unescape e of
                  None \<Rightarrow> None
                | Some x \<Rightarrow> scanstring (x # acc) s'))
      else if c < 32 then None
      else scanstring (c # acc) s)"
  by pat_completeness auto
termination
proof (relation "measure (\<lambda>(acc, s). length s)")
  show "wf (measure (\<lambda>(acc, s). length s))" by simp
next
  fix acc c s x21 x22 x2 x y
  assume "escape_u x22 = Some x2" "(x, y) = x2" "s = x21 # x22"
  then have "length y < length x22" using escape_u_length[of x22 x y] by simp
  then show "((x # acc, y), acc, c # s) \<in> measure (\<lambda>(acc, s). length s)"
    using \<open>s = x21 # x22\<close> by simp
qed simp_all

lemma scanstring_length: "scanstring acc s = Some (t, r) \<Longrightarrow> length r < length s"
proof (induction acc s rule: scanstring.induct)
  case (1 acc)
  then show ?case by simp
next
  case (2 acc c s)
  show ?case
  proof (cases "c = dq")
    case True
    with 2(4) show ?thesis by simp
  next
    case ndq: False
    show ?thesis
    proof (cases "c = ord CHR 0x5C")
      case True
      show ?thesis
      proof (cases s)
        case Nil
        with 2(4) ndq True show ?thesis by simp
      next
        case (Cons e s')
        show ?thesis
        proof (cases "e = ord CHR ''u''")
          case eu: True
          then obtain uni r' where E: "escape_u s' = Some (uni, r')" and R: "scanstring (uni # acc) r' = Some (t, r)"
            using 2(4) ndq True Cons by (auto split: option.splits)
          from 2(1)[OF ndq True Cons eu E] R have "length r < length r'" by simp
          moreover from escape_u_length[OF E] have "length r' < length s'" .
          ultimately show ?thesis using Cons by simp
        next
          case neu: False
          then obtain x where E: "unescape e = Some x" and R: "scanstring (x # acc) s' = Some (t, r)"
            using 2(4) ndq True Cons by (auto split: option.splits)
          from 2(2)[OF ndq True Cons neu E] R have "length r < length s'" by simp
          then show ?thesis using Cons by simp
        qed
      qed
    next
      case False
      with 2(4) ndq have c32: "\<not> c < 32" and R: "scanstring (c # acc) s = Some (t, r)"
        by (auto split: if_splits)
      from 2(3)[OF ndq False c32] R show ?thesis by simp
    qed
  qed
qed

definition digits_val :: "pystr \<Rightarrow> nat" where
  "digits_val ds = foldl (\<lambda>a c. 10 * a + (c - 48)) 0 ds"

definition match_int_part :: "pystr \<Rightarrow> pystr \<times> pystr" where
  "match_int_part s =
     (case s of
        [] \<Rightarrow> ([], s)
      | c # r \<Rightarrow>
          if 49 \<le> c \<and> c \<le> 57 then (c # takeWhile isdigit r, dropWhile isdigit r)
          else if c = 48 then ([c], r)
          else ([], s))"

definition match_frac_part :: "pystr \<Rightarrow> pystr \<times> pystr" where
  "match_frac_part s =
     (case s of
        d # c # r \<Rightarrow>
          if d = ord CHR ''.'' \<and> isdigit c then (c # takeWhile isdigit r, dropWhile isdigit r)
          else ([], s)
      | _ \<Rightarrow> ([], s))"

definition match_exponent :: "pystr \<Rightarrow> int option \<times> pystr" where
  "match_exponent s =
     (case s of
        [] \<Rightarrow> (None, s)
      | e # r \<Rightarrow>
          if e = ord CHR ''e'' \<or> e = ord CHR ''E'' then
            (let (sgn, r1) =
               (case r of
                  [] \<Rightarrow> (1, r)
                | c # r' \<Rightarrow>
                    if c = ord CHR ''+'' then (1, r')
                    else if c = ord CHR ''-'' then (- 1, r')
                    else (1, r))
             in if takeWhile isdigit r1 = [] then (None, s)
                else (Some (sgn * int (digits_val (takeWhile isdigit r1))), dropWhile isdigit r1))
          else (None, s))"

definition match_number :: "pystr \<Rightarrow> (pyval \<times> pystr) option" where
  "match_number s =
     (let (sgn, s1) =
        (case s of
           [] \<Rightarrow> (1, s)
         | c # r \<Rightarrow> if c = ord CHR ''-'' then (- 1, r) else (1, s));
        (ip, s2) = match_int_part s1
      in if ip = [] then None
         else
           (let (fp, s3) = match_frac_part s2;
                (ex, s4) = match_exponent s3
            in if fp = [] \<and> ex = None then Some (PInt (sgn * int (digits_val ip)), s4)
               else Some (PFloat (sgn * int (digits_val (ip @ fp)))
                            ((case ex of None \<Rightarrow> 0 | Some n \<Rightarrow> n) - int (length fp)), s4)))"

lemma length_dropWhile_Suc: "length (dropWhile p xs) \<le> Suc (length xs)"
  by (simp add: le_SucI length_dropWhile_le)

lemma length_dropWhile_Suc2: "length (dropWhile p xs) \<le> Suc (Suc (length xs))"
  by (simp add: le_SucI length_dropWhile_le)

lemma match_int_part_length:
  "match_int_part s = (ip, r) \<Longrightarrow> length r \<le> length s \<and> (ip \<noteq> [] \<longrightarrow> length r < length s)"
  by (auto simp: match_int_part_def less_Suc_eq_le length_dropWhile_le length_dropWhile_Suc
      split: list.splits if_splits)

lemma match_frac_part_length: "match_frac_part s = (fp, r) \<Longrightarrow> length r \<le> length s"
  by (auto simp: match_frac_part_def length_dropWhile_Suc2 split: list.splits if_splits)

lemma match_exponent_length: "match_exponent s = (ex, r) \<Longrightarrow> length r \<le> length s"
  by (auto simp: match_exponent_def Let_def length_dropWhile_Suc length_dropWhile_Suc2
      split: list.splits if_splits)

lemma match_number_length:
  assumes "match_number s = Some (v, r)"
  shows "length r < length s"
proof -
  obtain sgn s1 where S: "(case s of [] \<Rightarrow> (1::int, s)
         | c # r \<Rightarrow> if c = ord CHR ''-'' then (- 1, r) else (1, s)) = (sgn, s1)"
    by (cases "(case s of [] \<Rightarrow> (1::int, s)
         | c # r \<Rightarrow> if c = ord CHR ''-'' then (- 1, r) else (1, s))") auto
  then have l1: "length s1 \<le> length s"
    by (auto split: list.splits if_splits)
  obtain ip s2 where I: "match_int_part s1 = (ip, s2)" by (cases "match_int_part s1") auto
  obtain fp s3 where F: "match_frac_part s2 = (fp, s3)" by (cases "match_frac_part s2") auto
  obtain ex s4 where E: "match_exponent s3 = (ex, s4)" by (cases "match_exponent s3") auto
  from assms S I F E have ne: "ip \<noteq> []" and r: "r = s4"
    by (auto simp: match_number_def Let_def split: if_splits)
  from match_int_part_length[OF I] ne have "length s2 < length s1" by simp
  moreover from match_frac_part_length[OF F] have "length s3 \<le> length s2" .
  moreover from match_exponent_length[OF E] have "length s4 \<le> length s3" .
  ultimately show ?thesis using l1 r by simp
qed

lemma skip_ws_length: "length (skip_ws s) \<le> length s"
  by (simp add: skip_ws_def length_dropWhile_le)

function scan_once :: "pystr \<Rightarrow> (pyval \<times> pystr) option"
  and parse_object :: "(pystr \<times> pyval) list \<Rightarrow> pystr \<Rightarrow> (pyval \<times> pystr) option"
  and parse_array :: "pyval list \<Rightarrow> pystr \<Rightarrow> (pyval \<times> pystr) option"
where
  "scan_once s =
     (case s of
        [] \<Rightarrow> None
      | c # s1 \<Rightarrow>
          if c = dq then
            (case scanstring [] s1 of None \<Rightarrow> None | Some (t, r) \<Rightarrow> Some (PStr t, r))
          else if c = ord CHR ''{'' then
            (case skip_ws s1 of
               [] \<Rightarrow> None
             | c' # r \<Rightarrow>
                 if c' = ord CHR ''}'' then Some (PDict [], r)
                 else parse_object [] (skip_ws s1))
          else if c = ord CHR ''['' then
            (case skip_ws s1 of
               [] \<Rightarrow> None
             | c' # r \<Rightarrow>
                 if c' = ord CHR '']'' then Some (PList [], r)
                 else parse_array [] (skip_ws s1))
          else if take 4 s = str ''null'' then Some (PNone, drop 4 s)
          else if take 4 s = str ''true'' then Some (PBool True, drop 4 s)
          else if take 5 s = str ''false'' then Some (PBool False, drop 5 s)
          else if take 3 s = str ''NaN'' then Some (PNaN, drop 3 s)
          else if take 8 s = str ''Infinity'' then Some (PInf False, drop 8 s)
          else if take 9 s = str ''-Infinity'' then Some (PInf True, drop 9 s)
          else match_number s)"
| "parse_object acc s =
     (case s of
        [] \<Rightarrow> None
      | c # s1 \<Rightarrow>
          if c \<noteq> dq then None
          else
            (case scanstring [] s1 of
               None \<Rightarrow> None
             | Some (key, s2) \<Rightarrow>
                 (case skip_ws s2 of
                    [] \<Rightarrow> None
                  | c2 # s3 \<Rightarrow>
                      if c2 \<noteq> ord CHR '':'' then None
                      else
                        (case scan_once (skip_ws s3) of
                           None \<Rightarrow> None
                         | Some (val, s4) \<Rightarrow>
                             (case skip_ws s4 of
                                [] \<Rightarrow> None
                              | c3 # s5 \<Rightarrow>
                                  if c3 = ord CHR ''}'' then Some (PDict (dict_set key val acc), s5)
                                  else if c3 = ord CHR '','' then
                                    parse_object (dict_set key val acc) (skip_ws s5)
                                  else None)))))"
| "parse_array acc s =
     (case scan_once s of
        None \<Rightarrow> None
      | Some (val, s1) \<Rightarrow>
          (case skip_ws s1 of
             [] \<Rightarrow> None
           | c # s2 \<Rightarrow>
               if c = ord CHR '']'' then Some (PList (acc @ [val]), s2)
               else if c = ord CHR '','' then parse_array (acc @ [val]) (skip_ws s2)
               else None))"
  by pat_completeness auto

termination
proof -
  have dom_length:
    "scan_once_parse_object_parse_array_dom (Inl s) \<Longrightarrow>
       scan_once s = Some (v, r) \<Longrightarrow> length r < length s"
    "scan_once_parse_object_parse_array_dom (Inr (Inl (kvs, s))) \<Longrightarrow>
       parse_object kvs s = Some (v, r) \<Longrightarrow> length r < length s"
    "scan_once_parse_object_parse_array_dom (Inr (Inr (vs, s))) \<Longrightarrow>
       parse_array vs s = Some (v, r) \<Longrightarrow> length r < length s"
    for s kvs vs v r
  proof (induction s and kvs s and vs s arbitrary: v r and v r and v r
      rule: scan_once_parse_object_parse_array.pinduct)
    case (1 s)
    note eq = "1.prems"[unfolded scan_once.psimps[OF "1.hyps"]]
    from eq obtain c s1 where s: "s = c # s1" by (cases s) auto
    consider (string) "c = dq"
      | (object) "c \<noteq> dq" "c = ord CHR ''{''"
      | (array) "c \<noteq> dq" "c \<noteq> ord CHR ''{''" "c = ord CHR ''[''"
      | (other) "c \<noteq> dq" "c \<noteq> ord CHR ''{''" "c \<noteq> ord CHR ''[''"
      by blast
    then show ?case
    proof cases
      case string
      with eq s obtain t where "scanstring [] s1 = Some (t, r)"
        by (auto split: option.splits)
      from scanstring_length[OF this] s show ?thesis by simp
    next
      case object
      with eq s obtain c' r' where w: "skip_ws s1 = c' # r'"
        by (cases "skip_ws s1") auto
      show ?thesis
      proof (cases "c' = ord CHR ''}''")
        case True
        with eq s object w have "r = r'" by simp
        with w skip_ws_length[of s1] s show ?thesis by simp
      next
        case False
        with eq s object w have "parse_object [] (skip_ws s1) = Some (v, r)" by simp
        from "1.IH"(1)[OF s object w False this] skip_ws_length[of s1] s show ?thesis by simp
      qed
    next
      case array
      with eq s obtain c' r' where w: "skip_ws s1 = c' # r'"
        by (cases "skip_ws s1") auto
      show ?thesis
      proof (cases "c' = ord CHR '']''")
        case True
        with eq s array w have "r = r'" by simp
        with w skip_ws_length[of s1] s show ?thesis by simp
      next
        case False
        with eq s array w have "parse_array [] (skip_ws s1) = Some (v, r)" by simp
        from "1.IH"(2)[OF s array w False this] skip_ws_length[of s1] s show ?thesis by simp
      qed
    next
      case other
      with eq s have "(\<exists>n. 0 < n \<and> r = drop n s) \<or> match_number s = Some (v, r)"
        by (auto split: if_splits)
      then show ?thesis
      proof
        assume "\<exists>n. 0 < n \<and> r = drop n s"
        with s show ?thesis by auto
      next
        assume "match_number s = Some (v, r)"
        then show ?thesis by (rule match_number_length)
      qed
    qed
  next
    case (2 acc s)
    note eq = "2.prems"[unfolded parse_object.psimps[OF "2.hyps"]]
    from eq obtain c s1 where s: "s = c # s1" by (cases s) auto
    with eq have c: "\<not> c \<noteq> dq" by (auto split: if_splits)
    with eq s obtain x2 where k0: "scanstring [] s1 = Some x2"
      by (auto split: option.splits)
    obtain key s2 where x2: "(key, s2) = x2" by (cases x2) auto
    with k0 have k: "scanstring [] s1 = Some (key, s2)" by simp
    from eq s c k obtain c2 s3 where w2: "skip_ws s2 = c2 # s3"
      by (cases "skip_ws s2") auto
    with eq s c k have c2: "\<not> c2 \<noteq> ord CHR '':''" by (auto split: if_splits)
    with eq s c k w2 obtain x2a where v0: "scan_once (skip_ws s3) = Some x2a"
      by (auto split: option.splits)
    obtain val s4 where x2a: "(val, s4) = x2a" by (cases x2a) auto
    with v0 have vv: "scan_once (skip_ws s3) = Some (val, s4)" by simp
    from eq s c k w2 c2 vv obtain c3 s5 where w4: "skip_ws s4 = c3 # s5"
      by (cases "skip_ws s4") auto
    have l1: "length s2 < length s1" using scanstring_length[OF k] .
    have l2: "length s3 < length s2" using w2 skip_ws_length[of s2] by simp
    have l3: "length s4 < length (skip_ws s3)"
      using "2.IH"(1)[OF s c k0 x2 w2 c2 vv] .
    have l3': "length s4 < length s3" using l3 skip_ws_length[of s3] by simp
    have l4: "length s5 < length s4" using w4 skip_ws_length[of s4] by simp
    show ?case
    proof (cases "c3 = ord CHR ''}''")
      case True
      with eq s c k w2 c2 vv w4 have "r = s5" by simp
      with l1 l2 l3' l4 s show ?thesis by simp
    next
      case False
      with eq s c k w2 c2 vv w4 have c3: "c3 = ord CHR '',''"
        and rec: "parse_object (dict_set key val acc) (skip_ws s5) = Some (v, r)"
        by (auto split: if_splits)
      from "2.IH"(2)[OF s c k0 x2 w2 c2 v0 x2a w4 False c3 rec]
      have "length r < length (skip_ws s5)" .
      with skip_ws_length[of s5] l1 l2 l3' l4 s show ?thesis by simp
    qed
  next
    case (3 acc s)
    note eq = "3.prems"[unfolded parse_array.psimps[OF "3.hyps"]]
    from eq obtain x2 where v0: "scan_once s = Some x2"
      by (auto split: option.splits)
    obtain val s1 where x2: "(val, s1) = x2" by (cases x2) auto
    with v0 have vv: "scan_once s = Some (val, s1)" by simp
    from eq vv obtain c s2 where w: "skip_ws s1 = c # s2"
      by (cases "skip_ws s1") auto
    have l1: "length s1 < length s" using "3.IH"(1)[OF vv] .
    have l2: "length s2 < length s1" using w skip_ws_length[of s1] by simp
    show ?case
    proof (cases "c = ord CHR '']''")
      case True
      with eq vv w have "r = s2" by simp
      with l1 l2 show ?thesis by simp
    next
      case False
      with eq vv w have c: "c = ord CHR '',''"
        and rec: "parse_array (acc @ [val]) (skip_ws s2) = Some (v, r)"
        by (auto split: if_splits)
      from "3.IH"(2)[OF v0 x2 w False c rec] have "length r < length (skip_ws s2)" .
      with skip_ws_length[of s2] l1 l2 show ?thesis by simp
    qed
  qed
  show ?thesis
  proof (relation "measures [\<lambda>x. case x of Inl s \<Rightarrow> length s | Inr (Inl (kvs, s)) \<Rightarrow> length s
                                     | Inr (Inr (vs, s)) \<Rightarrow> length s,
                             \<lambda>x. case x of Inl s \<Rightarrow> 0 | Inr y \<Rightarrow> 1]", goal_cases)
    case 1
    show ?case by simp
  next
    case (2 s c s1 c' r)
    with skip_ws_length[of s1] show ?case by simp
  next
    case (3 s c s1 c' r)
    with skip_ws_length[of s1] show ?case by simp
  next
    case (4 acc s c s1 x2 key s2 c2 s3)
    then have k: "scanstring [] s1 = Some (key, s2)" by simp
    from 4 have "length s3 < length s2" using skip_ws_length[of s2] by simp
    with scanstring_length[OF k] skip_ws_length[of s3] 4 show ?case by simp
  next
    case (5 acc s c s1 x2 key s2 c2 s3 x2a val s4 c3 s5)
    then have k: "scanstring [] s1 = Some (key, s2)"
      and vv: "scan_once (skip_ws s3) = Some (val, s4)" by simp_all
    from 5 have l2: "length s3 < length s2" using skip_ws_length[of s2] by simp
    from 5 have l4: "length s5 < length s4" using skip_ws_length[of s4] by simp
    from dom_length(1)[OF 5(12) vv] skip_ws_length[of s3]
    have l3: "length s4 < length s3" by simp
    with scanstring_length[OF k] skip_ws_length[of s5] l2 l4 5 show ?case by simp
  next
    case (6 acc s)
    show ?case by simp
  next
    case (7 acc s x2 val s1 c s2)
    then have vv: "scan_once s = Some (val, s1)" by simp
    from 7 have l2: "length s2 < length s1" using skip_ws_length[of s1] by simp
    from dom_length(1)[OF 7(6) vv] skip_ws_length[of s2] l2 show ?case by simp
  qed
qed

declare scan_once.simps [simp del] parse_object.simps [simp del] parse_array.simps [simp del]

text \<open>
  \<open>json.loads(s)\<close>: white space, one value, white space, and nothing else.
\<close>

definition json_loads :: "pystr \<Rightarrow> pyerr + pyval" where
  "json_loads s =
     (case scan_once (skip_ws s) of
        None \<Rightarrow> Inl JSONDecodeError
      | Some (obj, r) \<Rightarrow> if skip_ws r = [] then Inr obj else Inl JSONDecodeError)"

section \<open>Response normalizer\<close>

text \<open>
  \<open>normalize_llm_json\<close>. \<open>rewrite\<close> is the text it hands to \<open>json.loads\<close>: the
  argument stripped of white space, then of double quotes, then of single quotes, and the
  three substitutions applied in the order of the source.
\<close>

definition rewrite :: "pystr \<Rightarrow> pystr" where
  "rewrite s = sub_id (sub_value (sub_key (strip_char sq (strip_char dq (strip s)))))"

definition normalize_llm_json :: "pystr \<Rightarrow> pyerr + pyval" where
  "normalize_llm_json s = json_loads (rewrite s)"






section \<open>Handlers\<close>

text \<open>
  Truth value of a Python value. A float literal is zero when the double nearest to its
  decimal value is zero, that is when the value is at most \<open>2 ^ - 1075\<close>, half of the
  least positive double.
\<close>

definition float_nonzero :: "int \<Rightarrow> int \<Rightarrow> bool" where
  "float_nonzero m e \<longleftrightarrow> m \<noteq> 0 \<and> (0 \<le> e \<or> 10 ^ nat (- e) < \<bar>m\<bar> * 2 ^ 1075)"

fun truthy :: "pyval \<Rightarrow> bool" where
  "truthy PNone = False"
| "truthy (PBool b) = b"
| "truthy (PInt i) = (i \<noteq> 0)"
| "truthy (PFloat m e) = float_nonzero m e"
| "truthy PNaN = True"
| "truthy (PInf neg) = True"
| "truthy (PStr s) = (s \<noteq> [])"
| "truthy (PList xs) = (xs \<noteq> [])"
| "truthy (PDict kvs) = (kvs \<noteq> [])"

text \<open>
  \<open>k in v\<close> for a text \<open>k\<close>: a key of a \<open>dict\<close>, an element of a \<open>list\<close>, a
  substring of a \<open>str\<close>; any other value is not iterable. \<open>v[k]\<close> for a text \<open>k\<close>:
  the value of the key in a \<open>dict\<close>; a \<open>list\<close> and a \<open>str\<close> take integer indices only.
\<close>

fun is_substring :: "pystr \<Rightarrow> pystr \<Rightarrow> bool" where
  "is_substring k [] = (k = [])"
| "is_substring k (c # s) = (take (length k) (c # s) = k \<or> is_substring k s)"

fun contains :: "pystr \<Rightarrow> pyval \<Rightarrow> pyerr + bool" where
  "contains k (PDict kvs) = Inr (k \<in> set (map fst kvs))"
| "contains k (PList xs) = Inr (PStr k \<in> set xs)"
| "contains k (PStr s) = Inr (is_substring k s)"
| "contains k v = Inl TypeError"

fun getitem :: "pyval \<Rightarrow> pystr \<Rightarrow> pyerr + pyval" where
  "getitem (PDict kvs) k = (case map_of kvs k of None \<Rightarrow> Inl KeyError | Some v \<Rightarrow> Inr v)"
| "getitem v k = Inl TypeError"

text \<open>
  What a handler does besides returning: the lines it prints and the calls it makes on the
  \<open>topics\<close> collection. A printed line is the list of the pieces of its f-string:
  literal text, a value (\<open>Val v\<close> for the text of \<open>v\<close>) or an exception. The answer of
  the store to the one call a handler makes is a parameter of the handler: the call raises
  or returns its result (\<open>inserted_id\<close>, \<open>matched_count\<close>, \<open>deleted_count\<close>, the
  document found or \<open>None\<close>). \<open>MyMongoClient()\<close> only builds the client; the driver
  connects at the first call, so a store that cannot be reached is a call that raises.
  \<open>returned\<close> is \<open>Inl e\<close> when the exception \<open>e\<close> leaves the handler, \<open>Inr None\<close> when
  it returns nothing and \<open>Inr (Some ms)\<close> when it returns the messages \<open>ms\<close>.
\<close>

datatype piece = Txt pystr | Val pyval | Exn pyerr

type_synonym line = "piece list"

datatype store_call =
    Insert_one pyval
  | Find_one pyval pyval
  | Update_one pyval pyval
  | Delete_one pyval

fun is_write :: "store_call \<Rightarrow> bool" where
  "is_write (Find_one f p) = False"
| "is_write c = True"

datatype 'a store = Raises pyerr | Returns 'a

record effect =
  printed :: "line list"
  store_calls :: "store_call list"
  returned :: "pyerr + pystr list option"

text \<open>
  The tests \<open>parsed and '_id' in parsed\<close> of insert and delete and
  \<open>parsed and '_id' in parsed and 'description' in parsed\<close> of update.
\<close>

definition has_id :: "pyval \<Rightarrow> pyerr + bool" where
  "has_id parsed = (if truthy parsed then contains (str ''_id'') parsed else Inr False)"

definition has_id_and_description :: "pyval \<Rightarrow> pyerr + bool" where
  "has_id_and_description parsed =
     (if truthy parsed then
        (case contains (str ''_id'') parsed of
           Inl e \<Rightarrow> Inl e
         | Inr False \<Rightarrow> Inr False
         | Inr True \<Rightarrow> contains (str ''description'') parsed)
      else Inr False)"

definition multiple_insert :: pystr where
  "multiple_insert = str ''Multiple documents detected. Please insert one document at a time.''"

definition multiple_delete :: pystr where
  "multiple_delete = str ''Multiple documents detected. Please delete one document at a time.''"

text \<open>
  The four handlers, as functions of the oracle's answer \<open>raw_response\<close> and of the
  answer of the store. Insert and delete run the store call inside \<open>try\<close> and print what
  it raises; update and find do not.
\<close>

definition mongo_insert :: "pystr \<Rightarrow> pyval store \<Rightarrow> effect" where
  "mongo_insert raw_response insert_one =
     (if length (split_on bar raw_response) > 1 then
        \<lparr>printed = [[Txt multiple_insert]], store_calls = [],
         returned = Inr (Some [multiple_insert])\<rparr>
      else
        (case normalize_llm_json (strip raw_response) of
           Inl e \<Rightarrow> \<lparr>printed = [], store_calls = [], returned = Inl e\<rparr>
         | Inr parsed_document \<Rightarrow>
             (case has_id parsed_document of
                Inl e \<Rightarrow> \<lparr>printed = [], store_calls = [], returned = Inl e\<rparr>
              | Inr True \<Rightarrow>
                  (case insert_one of
                     Returns inserted_id \<Rightarrow>
                       \<lparr>printed = [[Txt (str ''Inserted document with ID: ''), Val inserted_id]],
                        store_calls = [Insert_one parsed_document], returned = Inr None\<rparr>
                   | Raises e \<Rightarrow>
                       \<lparr>printed = [[Txt (str ''Error inserting document: ''), Exn e]],
                        store_calls = [Insert_one parsed_document], returned = Inr None\<rparr>)
              | Inr False \<Rightarrow>
                  \<lparr>printed = [[Txt (str ''Could not determine a valid ID to insert.'')]],
                   store_calls = [], returned = Inr None\<rparr>)))"

definition mongo_update :: "pystr \<Rightarrow> int store \<Rightarrow> effect" where
  "mongo_update raw_response update_one =
     (if length (split_on bar raw_response) > 1 then
        \<lparr>printed = [[Txt multiple_insert]], store_calls = [],
         returned = Inr (Some [multiple_delete])\<rparr>
      else
        (case normalize_llm_json (strip raw_response) of
           Inl e \<Rightarrow> \<lparr>printed = [], store_calls = [], returned = Inl e\<rparr>
         | Inr parsed_query \<Rightarrow>
             (case has_id_and_description parsed_query of
                Inl e \<Rightarrow> \<lparr>printed = [], store_calls = [], returned = Inl e\<rparr>
              | Inr True \<Rightarrow>
                  (case getitem parsed_query (str ''_id'') of
                     Inl e \<Rightarrow> \<lparr>printed = [], store_calls = [], returned = Inl e\<rparr>
                   | Inr ident \<Rightarrow>
                       (case getitem parsed_query (str ''description'') of
                          Inl e \<Rightarrow> \<lparr>printed = [], store_calls = [], returned = Inl e\<rparr>
                        | Inr description \<Rightarrow>
                            (let call = Update_one (PDict [(str ''_id'', ident)])
                                          (PDict [(str ''$set'',
                                             PDict [(str ''description'', description)])])
                             in case update_one of
                                  Raises e \<Rightarrow>
                                    \<lparr>printed = [], store_calls = [call], returned = Inl e\<rparr>
                                | Returns matched_count \<Rightarrow>
                                    if matched_count > 0 then
                                      \<lparr>printed = [[Txt (str ''Successfully updated description for document with ID: ''), Val ident]],
                                       store_calls = [call], returned = Inr None\<rparr>
                                    else
                                      \<lparr>printed = [[Txt (str ''No document found with ID: ''), Val ident]],
                                       store_calls = [call], returned = Inr None\<rparr>)))
              | Inr False \<Rightarrow>
                  \<lparr>printed = [[Txt (str ''Could not determine both ID and new description.'')]],
                   store_calls = [], returned = Inr None\<rparr>)))"

definition mongo_delete :: "pystr \<Rightarrow> int store \<Rightarrow> effect" where
  "mongo_delete raw_response delete_one =
     (if length (split_on bar raw_response) > 1 then
        \<lparr>printed = [[Txt multiple_insert]], store_calls = [],
         returned = Inr (Some [multiple_delete])\<rparr>
      else
        (case normalize_llm_json (strip raw_response) of
           Inl e \<Rightarrow> \<lparr>printed = [], store_calls = [], returned = Inl e\<rparr>
         | Inr parsed_query \<Rightarrow>
             (case has_id parsed_query of
                Inl e \<Rightarrow> \<lparr>printed = [], store_calls = [], returned = Inl e\<rparr>
              | Inr True \<Rightarrow>
                  (case getitem parsed_query (str ''_id'') of
                     Inl e \<Rightarrow>
                       \<lparr>printed = [[Txt (str ''Error deleting document: ''), Exn e]],
                        store_calls = [], returned = Inr None\<rparr>
                   | Inr ident \<Rightarrow>
                       (let call = Delete_one (PDict [(str ''_id'', ident)])
                        in case delete_one of
                             Raises e \<Rightarrow>
                               \<lparr>printed = [[Txt (str ''Error deleting document: ''), Exn e]],
                                store_calls = [call], returned = Inr None\<rparr>
                           | Returns deleted_count \<Rightarrow>
                               if deleted_count > 0 then
                                 \<lparr>printed = [[Txt (str ''Successfully deleted document with ID: ''), Val ident]],
                                  store_calls = [call], returned = Inr None\<rparr>
                               else
                                 \<lparr>printed = [[Txt (str ''No document found with ID: ''), Val ident]],
                                  store_calls = [call], returned = Inr None\<rparr>))
              | Inr False \<Rightarrow>
                  \<lparr>printed = [[Txt (str ''Could not determine a valid ID to delete.'')]],
                   store_calls = [], returned = Inr None\<rparr>)))"

text \<open>
  \<open>mongo_filter, projection = raw_response.split("|") if "|" in raw_response else
  (raw_response, "{}")\<close>: the unpacking into two names raises \<open>ValueError\<close> unless the
  split has exactly two parts.
\<close>

definition unpack_filter_projection :: "pystr \<Rightarrow> pyerr + pystr \<times> pystr" where
  "unpack_filter_projection raw_response =
     (if bar \<in> set raw_response then
        (case split_on bar raw_response of
           [mongo_filter, projection] \<Rightarrow> Inr (mongo_filter, projection)
         | _ \<Rightarrow> Inl ValueError)
      else Inr (raw_response, str ''{}''))"

definition mongo_find :: "pystr \<Rightarrow> pyval store \<Rightarrow> effect" where
  "mongo_find raw_response find_one =
     (case unpack_filter_projection raw_response of
        Inl e \<Rightarrow> \<lparr>printed = [], store_calls = [], returned = Inl e\<rparr>
      | Inr (mongo_filter, projection_text) \<Rightarrow>
          (case normalize_llm_json (strip mongo_filter) of
             Inl e \<Rightarrow> \<lparr>printed = [], store_calls = [], returned = Inl e\<rparr>
           | Inr parsed_mongo_filter \<Rightarrow>
               (case normalize_llm_json (strip projection_text) of
                  Inl e \<Rightarrow> \<lparr>printed = [], store_calls = [], returned = Inl e\<rparr>
                | Inr projection \<Rightarrow>
                    (let call = Find_one parsed_mongo_filter projection
                     in case find_one of
                          Raises e \<Rightarrow> \<lparr>printed = [], store_calls = [call], returned = Inl e\<rparr>
                        | Returns result \<Rightarrow>
                            if truthy result then
                              \<lparr>printed = [[Txt (str ''Document retrieved with filter: ''),
                                           Txt mongo_filter, Txt (str '': ''), Val result]],
                               store_calls = [call], returned = Inr None\<rparr>
                            else
                              \<lparr>printed = [[Txt (str ''No document matched the query.'')]],
                               store_calls = [call], returned = Inr None\<rparr>))))"

definition invalid_operation :: effect where
  "invalid_operation =
     \<lparr>printed = [], store_calls = [],
      returned = Inr (Some [str ''Invalid operation. Supported operations are: ['find', 'insert', 'update', 'delete']''])\<rparr>"

section \<open>Evaluation and splitting lemmas\<close>

lemmas text_defs = str_def ord_def sq_def dq_def bar_def isspace_def strip_where_def strip_def
  strip_char_def

lemmas re_defs = match_key_def match_value_def match_id_def id_key_def rewrite_def

lemmas json_defs = json_loads_def scan_once.simps parse_object.simps parse_array.simps
  skip_ws_def json_ws_def isdigit_def hexval_def decode_uXXXX_def unescape_def escape_u_def
  digits_val_def match_int_part_def match_frac_part_def match_exponent_def match_number_def

lemmas handler_defs = mongo_insert_def mongo_update_def mongo_delete_def mongo_find_def
  unpack_filter_projection_def has_id_def has_id_and_description_def normalize_llm_json_def
  Let_def

lemma length_split_on: "length (split_on d s) = Suc (count_list s d)"
  by (induction s) (auto split: list.splits)

lemma split_on_absent: "d \<notin> set s \<Longrightarrow> split_on d s = [s]"
  by (induction s) auto

lemma split_on_once: "d \<notin> set a \<Longrightarrow> d \<notin> set b \<Longrightarrow> split_on d (a @ d # b) = [a, b]"
  by (induction a) (auto simp: split_on_absent)

lemma count_list_pos: "d \<in> set s \<Longrightarrow> 0 < count_list s d"
  by (induction s) auto

lemma split_on_many: "d \<in> set s \<Longrightarrow> 1 < length (split_on d s)"
  by (simp add: length_split_on count_list_pos)

lemma split_on_single: "d \<notin> set s \<Longrightarrow> \<not> Suc 0 < length (split_on d s)"
  by (simp add: split_on_absent)

lemma normalize_empty_object: "normalize_llm_json (strip (str ''{}'')) = Inr (PDict [])"
  by (simp add: normalize_llm_json_def text_defs re_defs json_defs)

text \<open>
  The classifier lowers a member of the list of supported operations only, and there
  \<open>lower\<close> changes nothing: the classifier returns the stripped answer itself.
\<close>

lemma lower_supported: "x \<in> set supported_operations \<Longrightarrow> lower x = x"
  by (auto simp: supported_operations_def lower_def lower_cp_def str_def)

lemma operation_detection_exact:
  "operation_detection content =
     (if strip content \<in> set supported_operations then strip content else str ''invalid'')"
  by (simp add: operation_detection_def lower_supported)

section \<open>The decoder reads a value from its own text\<close>


























text \<open>
  Two strict texts the normalizer does not leave alone: a string at top level loses its
  quotes, and a single-quoted key inside a string value is rewritten.
\<close>

lemma normalize_top_level_string:
  "json_loads (str ''\"abc\"'') = Inr (PStr (str ''abc'')) \<and>
   normalize_llm_json (str ''\"abc\"'') = Inl JSONDecodeError"
  by (simp add: normalize_llm_json_def text_defs re_defs json_defs)

lemma normalize_quoted_key_in_string:
  "json_loads (str ''{\"k\": \",'b':\"}'') = Inr (PDict [(str ''k'', PStr (str '','b':''))]) \<and>
   normalize_llm_json (str ''{\"k\": \",'b':\"}'') = Inl JSONDecodeError"
  by (simp add: normalize_llm_json_def text_defs re_defs json_defs)

section \<open>The claims\<close>

subsection \<open>C1: operation classifier\<close>

text \<open>
  C1. The claim: a supported operation name in any letter case is classified as its
  lowercase form, and every other answer as \<open>invalid\<close>. The classifier looks the stripped
  answer up in the list of lowercase names before it lowers it, so the answer \<open>FIND\<close> is
  classified as \<open>invalid\<close> and not as \<open>find\<close>.
\<close>

theorem C1_uppercase_name_is_invalid:
  "operation_detection (str ''FIND'') = str ''invalid''"
  by (simp add: operation_detection_def supported_operations_def text_defs)

subsection \<open>C2: errors at the handler boundary\<close>

text \<open>
  C2, as claimed: every parse error raised inside a handler is turned into a message at
  the handler. It is not: for the answer \<open>hello\<close> the insert handler prints nothing and the
  \<open>JSONDecodeError\<close> of the normalizer leaves it.
\<close>

theorem C2_counterexample:
  "mongo_insert (str ''hello'') (Returns (PStr (str ''a''))) =
     \<lparr>printed = [], store_calls = [], returned = Inl JSONDecodeError\<rparr>"
  by (simp add: handler_defs text_defs re_defs json_defs)

text \<open>
  C2, amended. In insert, update and delete, an answer with the delimiter and an answer
  whose required-field test is false end in a printed message and a normal return, with no
  call to the store; an exception of the store call in insert and delete is printed and the
  handler returns normally. A parse error of the normalizer is caught by none of the four
  handlers: it leaves insert, update and delete, and it leaves find whichever of the two
  segments it comes from, with nothing printed and no call to the store.
\<close>

theorem C2_errors_at_handlers:
  "(bar \<in> set rawm \<longrightarrow>
      mongo_insert rawm si =
        \<lparr>printed = [[Txt multiple_insert]], store_calls = [],
         returned = Inr (Some [multiple_insert])\<rparr> \<and>
      mongo_update rawm su =
        \<lparr>printed = [[Txt multiple_insert]], store_calls = [],
         returned = Inr (Some [multiple_delete])\<rparr> \<and>
      mongo_delete rawm sd =
        \<lparr>printed = [[Txt multiple_insert]], store_calls = [],
         returned = Inr (Some [multiple_delete])\<rparr>) \<and>
   (bar \<notin> set rawv \<longrightarrow> normalize_llm_json (strip rawv) = Inr v \<longrightarrow>
      (has_id v = Inr False \<longrightarrow>
         mongo_insert rawv si =
           \<lparr>printed = [[Txt (str ''Could not determine a valid ID to insert.'')]],
            store_calls = [], returned = Inr None\<rparr> \<and>
         mongo_delete rawv sd =
           \<lparr>printed = [[Txt (str ''Could not determine a valid ID to delete.'')]],
            store_calls = [], returned = Inr None\<rparr>) \<and>
      (has_id_and_description v = Inr False \<longrightarrow>
         mongo_update rawv su =
           \<lparr>printed = [[Txt (str ''Could not determine both ID and new description.'')]],
            store_calls = [], returned = Inr None\<rparr>)) \<and>
   (bar \<notin> set raws \<longrightarrow> normalize_llm_json (strip raws) = Inr d \<longrightarrow>
    has_id d = Inr True \<longrightarrow>
      mongo_insert raws (Raises e) =
        \<lparr>printed = [[Txt (str ''Error inserting document: ''), Exn e]],
         store_calls = [Insert_one d], returned = Inr None\<rparr> \<and>
      mongo_delete raws (Raises e) =
        (case getitem d (str ''_id'') of
           Inl e' \<Rightarrow>
             \<lparr>printed = [[Txt (str ''Error deleting document: ''), Exn e']],
              store_calls = [], returned = Inr None\<rparr>
         | Inr i \<Rightarrow>
             \<lparr>printed = [[Txt (str ''Error deleting document: ''), Exn e]],
              store_calls = [Delete_one (PDict [(str ''_id'', i)])], returned = Inr None\<rparr>)) \<and>
   (bar \<notin> set rawp \<longrightarrow> normalize_llm_json (strip rawp) = Inl ep \<longrightarrow>
      mongo_insert rawp si = \<lparr>printed = [], store_calls = [], returned = Inl ep\<rparr> \<and>
      mongo_update rawp su = \<lparr>printed = [], store_calls = [], returned = Inl ep\<rparr> \<and>
      mongo_delete rawp sd = \<lparr>printed = [], store_calls = [], returned = Inl ep\<rparr>) \<and>
   (unpack_filter_projection rawf = Inr (seg, proj) \<longrightarrow>
      (normalize_llm_json (strip seg) = Inl ef \<longrightarrow>
         mongo_find rawf sf = \<lparr>printed = [], store_calls = [], returned = Inl ef\<rparr>) \<and>
      (normalize_llm_json (strip seg) = Inr f \<longrightarrow>
       normalize_llm_json (strip proj) = Inl ef \<longrightarrow>
         mongo_find rawf sf = \<lparr>printed = [], store_calls = [], returned = Inl ef\<rparr>))"
proof (intro conjI impI)
  assume "bar \<in> set rawm"
  then have m: "Suc 0 < length (split_on bar rawm)"
    using split_on_many[of bar rawm] by simp
  from m show "mongo_insert rawm si =
        \<lparr>printed = [[Txt multiple_insert]], store_calls = [],
         returned = Inr (Some [multiple_insert])\<rparr>"
    by (simp add: mongo_insert_def)
  from m show "mongo_update rawm su =
        \<lparr>printed = [[Txt multiple_insert]], store_calls = [],
         returned = Inr (Some [multiple_delete])\<rparr>"
    by (simp add: mongo_update_def)
  from m show "mongo_delete rawm sd =
        \<lparr>printed = [[Txt multiple_insert]], store_calls = [],
         returned = Inr (Some [multiple_delete])\<rparr>"
    by (simp add: mongo_delete_def)
next
  assume "bar \<notin> set rawv" and n: "normalize_llm_json (strip rawv) = Inr v"
    and h: "has_id v = Inr False"
  then have s: "\<not> Suc 0 < length (split_on bar rawv)" by (simp add: split_on_single)
  from s n h show "mongo_insert rawv si =
           \<lparr>printed = [[Txt (str ''Could not determine a valid ID to insert.'')]],
            store_calls = [], returned = Inr None\<rparr>"
    by (simp add: mongo_insert_def)
  from s n h show "mongo_delete rawv sd =
           \<lparr>printed = [[Txt (str ''Could not determine a valid ID to delete.'')]],
            store_calls = [], returned = Inr None\<rparr>"
    by (simp add: mongo_delete_def)
next
  assume "bar \<notin> set rawv" and n: "normalize_llm_json (strip rawv) = Inr v"
    and h: "has_id_and_description v = Inr False"
  then have s: "\<not> Suc 0 < length (split_on bar rawv)" by (simp add: split_on_single)
  from s n h show "mongo_update rawv su =
           \<lparr>printed = [[Txt (str ''Could not determine both ID and new description.'')]],
            store_calls = [], returned = Inr None\<rparr>"
    by (simp add: mongo_update_def)
next
  assume "bar \<notin> set raws" and n: "normalize_llm_json (strip raws) = Inr d"
    and h: "has_id d = Inr True"
  then have s: "\<not> Suc 0 < length (split_on bar raws)" by (simp add: split_on_single)
  from s n h show "mongo_insert raws (Raises e) =
        \<lparr>printed = [[Txt (str ''Error inserting document: ''), Exn e]],
         store_calls = [Insert_one d], returned = Inr None\<rparr>"
    by (simp add: mongo_insert_def)
  from s n h show "mongo_delete raws (Raises e) =
        (case getitem d (str ''_id'') of
           Inl e' \<Rightarrow>
             \<lparr>printed = [[Txt (str ''Error deleting document: ''), Exn e']],
              store_calls = [], returned = Inr None\<rparr>
         | Inr i \<Rightarrow>
             \<lparr>printed = [[Txt (str ''Error deleting document: ''), Exn e]],
              store_calls = [Delete_one (PDict [(str ''_id'', i)])], returned = Inr None\<rparr>)"
    by (simp add: mongo_delete_def Let_def split: sum.splits)
next
  assume "bar \<notin> set rawp" and n: "normalize_llm_json (strip rawp) = Inl ep"
  then have s: "\<not> Suc 0 < length (split_on bar rawp)" by (simp add: split_on_single)
  from s n show "mongo_insert rawp si = \<lparr>printed = [], store_calls = [], returned = Inl ep\<rparr>"
    by (simp add: mongo_insert_def)
  from s n show "mongo_update rawp su = \<lparr>printed = [], store_calls = [], returned = Inl ep\<rparr>"
    by (simp add: mongo_update_def)
  from s n show "mongo_delete rawp sd = \<lparr>printed = [], store_calls = [], returned = Inl ep\<rparr>"
    by (simp add: mongo_delete_def)
next
  assume "unpack_filter_projection rawf = Inr (seg, proj)"
    and "normalize_llm_json (strip seg) = Inl ef"
  then show "mongo_find rawf sf = \<lparr>printed = [], store_calls = [], returned = Inl ef\<rparr>"
    by (simp add: mongo_find_def)
next
  assume "unpack_filter_projection rawf = Inr (seg, proj)"
    and "normalize_llm_json (strip seg) = Inr f"
    and "normalize_llm_json (strip proj) = Inl ef"
  then show "mongo_find rawf sf = \<lparr>printed = [], store_calls = [], returned = Inl ef\<rparr>"
    by (simp add: mongo_find_def)
qed

text \<open>
  C2, amended, at the answers \<open>{'_id': 'a'}|{'_id': 'b'}\<close> (delimiter), \<open>{}\<close> (no
  identifier), \<open>{'_id': 'a'}\<close> with a store that raises, \<open>hello\<close> (parse error), and
  \<open>hello|{}\<close> and \<open>{}|hello\<close> for the two segments of find.
\<close>

theorem C2_errors_at_handlers_witness:
  "bar \<in> set (str ''{'_id': 'a'}|{'_id': 'b'}'') \<and>
   mongo_insert (str ''{'_id': 'a'}|{'_id': 'b'}'') (Returns (PStr (str ''a''))) =
     \<lparr>printed = [[Txt multiple_insert]], store_calls = [],
      returned = Inr (Some [multiple_insert])\<rparr> \<and>
   bar \<notin> set (str ''{}'') \<and> normalize_llm_json (strip (str ''{}'')) = Inr (PDict []) \<and>
   has_id (PDict []) = Inr False \<and> has_id_and_description (PDict []) = Inr False \<and>
   mongo_update (str ''{}'') (Returns 1) =
     \<lparr>printed = [[Txt (str ''Could not determine both ID and new description.'')]],
      store_calls = [], returned = Inr None\<rparr> \<and>
   bar \<notin> set (str ''{'_id': 'a'}'') \<and>
   normalize_llm_json (strip (str ''{'_id': 'a'}'')) = Inr (PDict [(str ''_id'', PStr (str ''a''))]) \<and>
   has_id (PDict [(str ''_id'', PStr (str ''a''))]) = Inr True \<and>
   mongo_insert (str ''{'_id': 'a'}'') (Raises (StoreError (str ''duplicate key''))) =
     \<lparr>printed = [[Txt (str ''Error inserting document: ''), Exn (StoreError (str ''duplicate key''))]],
      store_calls = [Insert_one (PDict [(str ''_id'', PStr (str ''a''))])],
      returned = Inr None\<rparr> \<and>
   mongo_delete (str ''{'_id': 'a'}'') (Raises (StoreError (str ''duplicate key''))) =
     \<lparr>printed = [[Txt (str ''Error deleting document: ''), Exn (StoreError (str ''duplicate key''))]],
      store_calls = [Delete_one (PDict [(str ''_id'', PStr (str ''a''))])],
      returned = Inr None\<rparr> \<and>
   bar \<notin> set (str ''hello'') \<and> normalize_llm_json (strip (str ''hello'')) = Inl JSONDecodeError \<and>
   mongo_delete (str ''hello'') (Returns 1) =
     \<lparr>printed = [], store_calls = [], returned = Inl JSONDecodeError\<rparr> \<and>
   unpack_filter_projection (str ''hello|{}'') = Inr (str ''hello'', str ''{}'') \<and>
   mongo_find (str ''hello|{}'') (Returns PNone) =
     \<lparr>printed = [], store_calls = [], returned = Inl JSONDecodeError\<rparr> \<and>
   unpack_filter_projection (str ''{}|hello'') = Inr (str ''{}'', str ''hello'') \<and>
   mongo_find (str ''{}|hello'') (Returns PNone) =
     \<lparr>printed = [], store_calls = [], returned = Inl JSONDecodeError\<rparr>"
proof -
  have m: "bar \<in> set (str ''{'_id': 'a'}|{'_id': 'b'}'')" by (simp add: text_defs)
  have v1: "bar \<notin> set (str ''{}'')" by (simp add: text_defs)
  have v2: "normalize_llm_json (strip (str ''{}'')) = Inr (PDict [])"
    by (rule normalize_empty_object)
  have v3: "has_id (PDict []) = Inr False" by (simp add: has_id_def)
  have v4: "has_id_and_description (PDict []) = Inr False"
    by (simp add: has_id_and_description_def)
  have s1: "bar \<notin> set (str ''{'_id': 'a'}'')" by (simp add: text_defs)
  have s2: "normalize_llm_json (strip (str ''{'_id': 'a'}'')) =
      Inr (PDict [(str ''_id'', PStr (str ''a''))])"
    by (simp add: normalize_llm_json_def text_defs re_defs json_defs)
  have s3: "has_id (PDict [(str ''_id'', PStr (str ''a''))]) = Inr True"
    by (simp add: has_id_def)
  have s4: "getitem (PDict [(str ''_id'', PStr (str ''a''))]) (str ''_id'') = Inr (PStr (str ''a''))"
    by simp
  have p1: "bar \<notin> set (str ''hello'')" by (simp add: text_defs)
  have p2: "normalize_llm_json (strip (str ''hello'')) = Inl JSONDecodeError"
    by (simp add: normalize_llm_json_def text_defs re_defs json_defs)
  have f1: "unpack_filter_projection (str ''hello|{}'') = Inr (str ''hello'', str ''{}'')"
    by (simp add: unpack_filter_projection_def text_defs)
  have f2: "unpack_filter_projection (str ''{}|hello'') = Inr (str ''{}'', str ''hello'')"
    by (simp add: unpack_filter_projection_def text_defs)
  note a = C2_errors_at_handlers[where rawm = "str ''{'_id': 'a'}|{'_id': 'b'}''"
      and si = "Returns (PStr (str ''a''))" and su = "Returns 1" and sd = "Returns 1"
      and rawv = "str ''{}''" and v = "PDict []"
      and raws = "str ''{'_id': 'a'}''" and d = "PDict [(str ''_id'', PStr (str ''a''))]"
      and e = "StoreError (str ''duplicate key'')"
      and rawp = "str ''hello''" and ep = JSONDecodeError
      and rawf = "str ''hello|{}''" and seg = "str ''hello''" and proj = "str ''{}''"
      and ef = JSONDecodeError and sf = "Returns PNone"]
  note b = C2_errors_at_handlers[where rawf = "str ''{}|hello''" and seg = "str ''{}''" and proj = "str ''hello''"
      and ef = JSONDecodeError and sf = "Returns PNone" and f = "PDict []"]
  from a m v1 v2 v3 v4 s1 s2 s3 p1 p2 f1
  have A: "mongo_insert (str ''{'_id': 'a'}|{'_id': 'b'}'') (Returns (PStr (str ''a''))) =
     \<lparr>printed = [[Txt multiple_insert]], store_calls = [],
      returned = Inr (Some [multiple_insert])\<rparr>"
    and B: "mongo_update (str ''{}'') (Returns 1) =
     \<lparr>printed = [[Txt (str ''Could not determine both ID and new description.'')]],
      store_calls = [], returned = Inr None\<rparr>"
    and C: "mongo_insert (str ''{'_id': 'a'}'') (Raises (StoreError (str ''duplicate key''))) =
     \<lparr>printed = [[Txt (str ''Error inserting document: ''), Exn (StoreError (str ''duplicate key''))]],
      store_calls = [Insert_one (PDict [(str ''_id'', PStr (str ''a''))])],
      returned = Inr None\<rparr>"
    and D: "mongo_delete (str ''{'_id': 'a'}'') (Raises (StoreError (str ''duplicate key''))) =
        (case getitem (PDict [(str ''_id'', PStr (str ''a''))]) (str ''_id'') of
           Inl e' \<Rightarrow>
             \<lparr>printed = [[Txt (str ''Error deleting document: ''), Exn e']],
              store_calls = [], returned = Inr None\<rparr>
         | Inr i \<Rightarrow>
             \<lparr>printed = [[Txt (str ''Error deleting document: ''), Exn (StoreError (str ''duplicate key''))]],
              store_calls = [Delete_one (PDict [(str ''_id'', i)])], returned = Inr None\<rparr>)"
    and E: "mongo_delete (str ''hello'') (Returns 1) =
     \<lparr>printed = [], store_calls = [], returned = Inl JSONDecodeError\<rparr>"
    and F: "mongo_find (str ''hello|{}'') (Returns PNone) =
     \<lparr>printed = [], store_calls = [], returned = Inl JSONDecodeError\<rparr>"
    by blast+
  from b f2 v2 p2
  have G: "mongo_find (str ''{}|hello'') (Returns PNone) =
     \<lparr>printed = [], store_calls = [], returned = Inl JSONDecodeError\<rparr>"
    by blast
  from D s4 have D': "mongo_delete (str ''{'_id': 'a'}'') (Raises (StoreError (str ''duplicate key''))) =
     \<lparr>printed = [[Txt (str ''Error deleting document: ''), Exn (StoreError (str ''duplicate key''))]],
      store_calls = [Delete_one (PDict [(str ''_id'', PStr (str ''a''))])],
      returned = Inr None\<rparr>"
    by simp
  from A B C D' E F G m v1 v2 v3 v4 s1 s2 s3 p1 p2 f1 f2 show ?thesis by blast
qed

subsection \<open>C3: fields written\<close>

text \<open>
  C3. The claim: no store write of a handler creates or modifies a field other than the
  identifier and the description. The insert handler hands the whole parsed document to
  \<open>insert_one\<close>: for an answer with a \<open>title\<close> field, the document written has that
  field.
\<close>

theorem C3_insert_writes_other_field:
  "store_calls (mongo_insert (str ''{'_id': 'a', 'title': 't'}'') (Returns (PStr (str ''a'')))) =
     [Insert_one (PDict [(str ''_id'', PStr (str ''a'')), (str ''title'', PStr (str ''t''))])]"
  by (simp add: handler_defs text_defs re_defs json_defs)

subsection \<open>C4: multi-document rejection\<close>

text \<open>
  C4. For every raw answer that contains the delimiter \<open>|\<close>, the insert, update and
  delete handlers take the rejection path: they print the multiple-documents line, return
  the multiple-documents message and issue no call to the store.
\<close>

theorem C4_delimiter_rejected:
  "bar \<in> set raw_response \<Longrightarrow>
     mongo_insert raw_response st1 =
       \<lparr>printed = [[Txt multiple_insert]], store_calls = [],
        returned = Inr (Some [multiple_insert])\<rparr> \<and>
     mongo_update raw_response st2 =
       \<lparr>printed = [[Txt multiple_insert]], store_calls = [],
        returned = Inr (Some [multiple_delete])\<rparr> \<and>
     mongo_delete raw_response st3 =
       \<lparr>printed = [[Txt multiple_insert]], store_calls = [],
        returned = Inr (Some [multiple_delete])\<rparr>"
  using split_on_many[of bar raw_response]
  by (simp add: mongo_insert_def mongo_update_def mongo_delete_def)

text \<open>
  C4, at the answer \<open>{'_id': 'a'}|{'_id': 'b'}\<close> and a store that would accept the
  write.
\<close>

theorem C4_delimiter_rejected_witness:
  "bar \<in> set (str ''{'_id': 'a'}|{'_id': 'b'}'') \<and>
   mongo_insert (str ''{'_id': 'a'}|{'_id': 'b'}'') (Returns (PStr (str ''a''))) =
     \<lparr>printed = [[Txt multiple_insert]], store_calls = [],
      returned = Inr (Some [multiple_insert])\<rparr> \<and>
   mongo_update (str ''{'_id': 'a'}|{'_id': 'b'}'') (Returns 1) =
     \<lparr>printed = [[Txt multiple_insert]], store_calls = [],
      returned = Inr (Some [multiple_delete])\<rparr> \<and>
   mongo_delete (str ''{'_id': 'a'}|{'_id': 'b'}'') (Returns 1) =
     \<lparr>printed = [[Txt multiple_insert]], store_calls = [],
      returned = Inr (Some [multiple_delete])\<rparr>"
proof -
  have h: "bar \<in> set (str ''{'_id': 'a'}|{'_id': 'b'}'')"
    by (simp add: text_defs)
  from C4_delimiter_rejected[OF h] h show ?thesis by blast
qed

subsection \<open>C5: the normalizer on two answers\<close>

text \<open>
  C5. The normalizer maps \<open>{'_id': 'a', 'description': 'b'}\<close> to the mapping of
  \<open>_id\<close> to \<open>a\<close> and \<open>description\<close> to \<open>b\<close>, and \<open>{'id': 'x'}\<close> to the mapping of
  \<open>_id\<close> to \<open>x\<close>.
\<close>

theorem C5_normalize_examples:
  "normalize_llm_json (str ''{'_id': 'a', 'description': 'b'}'') =
     Inr (PDict [(str ''_id'', PStr (str ''a'')), (str ''description'', PStr (str ''b''))]) \<and>
   normalize_llm_json (str ''{'id': 'x'}'') = Inr (PDict [(str ''_id'', PStr (str ''x''))])"
  by (simp add: normalize_llm_json_def text_defs re_defs json_defs)

subsection \<open>C6: idempotence of the normalizer\<close>




subsection \<open>C7: the lookup of the find handler\<close>

text \<open>
  C7, as claimed: for every raw answer the find handler executes exactly one lookup. For
  the answer \<open>hello\<close> the normalizer raises and no lookup is executed.
\<close>

theorem C7_counterexample:
  "mongo_find (str ''hello'') (Returns PNone) =
     \<lparr>printed = [], store_calls = [], returned = Inl JSONDecodeError\<rparr>"
  by (simp add: handler_defs text_defs re_defs json_defs)

text \<open>
  C7, amended. For a raw answer without delimiter whose text normalizes to \<open>f\<close>, the
  find handler executes exactly one lookup, with the filter \<open>f\<close> and the empty mapping as
  projection. For a raw answer with one delimiter, whose two segments normalize to \<open>f\<close>
  and \<open>p\<close>, it executes exactly one lookup with the filter \<open>f\<close> and the projection
  \<open>p\<close>.
\<close>

theorem C7_find_lookup:
  "(bar \<notin> set raw \<longrightarrow> normalize_llm_json (strip raw) = Inr f \<longrightarrow>
      store_calls (mongo_find raw st) = [Find_one f (PDict [])]) \<and>
   (bar \<notin> set a \<longrightarrow> bar \<notin> set b \<longrightarrow>
    normalize_llm_json (strip a) = Inr f \<longrightarrow> normalize_llm_json (strip b) = Inr p \<longrightarrow>
      store_calls (mongo_find (a @ bar # b) st) = [Find_one f p])"
proof (intro conjI impI)
  assume "bar \<notin> set raw" and "normalize_llm_json (strip raw) = Inr f"
  then show "store_calls (mongo_find raw st) = [Find_one f (PDict [])]"
    by (simp add: mongo_find_def unpack_filter_projection_def normalize_empty_object Let_def
        split: store.splits)
next
  assume "bar \<notin> set a" and "bar \<notin> set b"
    and "normalize_llm_json (strip a) = Inr f" and "normalize_llm_json (strip b) = Inr p"
  then show "store_calls (mongo_find (a @ bar # b) st) = [Find_one f p]"
    by (simp add: mongo_find_def unpack_filter_projection_def split_on_once Let_def
        split: store.splits)
qed

text \<open>
  C7, amended, at the answers \<open>{'_id': 'a'}\<close> and \<open>{'_id': 'a'}| {'description': 1}\<close>.
\<close>

theorem C7_find_lookup_witness:
  "bar \<notin> set (str ''{'_id': 'a'}'') \<and>
   normalize_llm_json (strip (str ''{'_id': 'a'}'')) = Inr (PDict [(str ''_id'', PStr (str ''a''))]) \<and>
   store_calls (mongo_find (str ''{'_id': 'a'}'') (Returns PNone)) =
     [Find_one (PDict [(str ''_id'', PStr (str ''a''))]) (PDict [])] \<and>
   bar \<notin> set (str '' {'description': 1}'') \<and>
   normalize_llm_json (strip (str '' {'description': 1}'')) = Inr (PDict [(str ''description'', PInt 1)]) \<and>
   store_calls (mongo_find (str ''{'_id': 'a'}'' @ bar # str '' {'description': 1}'') (Returns PNone)) =
     [Find_one (PDict [(str ''_id'', PStr (str ''a''))]) (PDict [(str ''description'', PInt 1)])]"
proof -
  have h1: "bar \<notin> set (str ''{'_id': 'a'}'')" by (simp add: text_defs)
  have h2: "normalize_llm_json (strip (str ''{'_id': 'a'}'')) =
      Inr (PDict [(str ''_id'', PStr (str ''a''))])"
    by (simp add: normalize_llm_json_def text_defs re_defs json_defs)
  have h3: "bar \<notin> set (str '' {'description': 1}'')" by (simp add: text_defs)
  have h4: "normalize_llm_json (strip (str '' {'description': 1}'')) =
      Inr (PDict [(str ''description'', PInt 1)])"
    by (simp add: normalize_llm_json_def text_defs re_defs json_defs)
  from C7_find_lookup[of "str ''{'_id': 'a'}''" "PDict [(str ''_id'', PStr (str ''a''))]"
      "Returns PNone" "str ''{'_id': 'a'}''" "str '' {'description': 1}''"
      "PDict [(str ''description'', PInt 1)]"] h1 h2 h3 h4
  show ?thesis by blast
qed

subsection \<open>C8: the find handler does not write\<close>

text \<open>
  C8, as claimed: for every answer the find handler reports the matched document or a
  no-match message. For the answer \<open>{\<close> it reports nothing, whatever the store holds: the
  normalizer raises.
\<close>

theorem C8_counterexample:
  "mongo_find (str ''{'') (Returns (PDict [(str ''_id'', PStr (str ''a''))])) =
     \<lparr>printed = [], store_calls = [], returned = Inl JSONDecodeError\<rparr>"
  by (simp add: handler_defs text_defs re_defs json_defs)

text \<open>
  C8, amended. For every answer and every answer of the store, no call of the find handler
  on the store is an insert, an update or a delete; and whenever the handler returns, it
  has printed exactly one line, the matched document when the store returned one that is
  true, the no-match message otherwise.
\<close>

theorem C8_find_no_write:
  "filter is_write (store_calls (mongo_find raw st)) = [] \<and>
   (returned (mongo_find raw st) = Inr r \<longrightarrow>
      (\<exists>seg proj doc. unpack_filter_projection raw = Inr (seg, proj) \<and> st = Returns doc \<and>
         printed (mongo_find raw st) =
           [if truthy doc
            then [Txt (str ''Document retrieved with filter: ''), Txt seg, Txt (str '': ''), Val doc]
            else [Txt (str ''No document matched the query.'')]]))"
  by (auto simp: mongo_find_def Let_def split: sum.splits prod.splits store.splits)

text \<open>C8, amended, at the answer \<open>{'_id': 'a'}\<close> and a store that finds nothing.\<close>

theorem C8_find_no_write_witness:
  "filter is_write (store_calls (mongo_find (str ''{'_id': 'a'}'') (Returns PNone))) = [] \<and>
   returned (mongo_find (str ''{'_id': 'a'}'') (Returns PNone)) = Inr None \<and>
   printed (mongo_find (str ''{'_id': 'a'}'') (Returns PNone)) =
     [[Txt (str ''No document matched the query.'')]]"
proof -
  have h: "returned (mongo_find (str ''{'_id': 'a'}'') (Returns PNone)) = Inr None"
    by (simp add: handler_defs text_defs re_defs json_defs)
  from C8_find_no_write[of "str ''{'_id': 'a'}''" "Returns PNone" None] h
  show ?thesis by auto
qed

subsection \<open>C9: router\<close>

text \<open>
  C9. The router is a function of the operation alone. Each of the four supported
  operation names is routed to the handler of that name, and every other value, \<open>invalid\<close>
  and \<open>None\<close> among them, to the invalid-operation handler.
\<close>

theorem C9_router_total:
  "router (Some (str ''insert'')) = str ''mongo_insert'' \<and>
   router (Some (str ''find'')) = str ''mongo_find'' \<and>
   router (Some (str ''update'')) = str ''mongo_update'' \<and>
   router (Some (str ''delete'')) = str ''mongo_delete'' \<and>
   path_map (router (Some (str ''insert''))) = Some Mongo_insert \<and>
   path_map (router (Some (str ''find''))) = Some Mongo_find \<and>
   path_map (router (Some (str ''update''))) = Some Mongo_update \<and>
   path_map (router (Some (str ''delete''))) = Some Mongo_delete \<and>
   (operation \<notin> Some ` set supported_operations \<longrightarrow>
      router operation = str ''invalid_operation'' \<and>
      path_map (router operation) = Some Invalid_operation)"
  by (auto simp: router_def path_map_def supported_operations_def str_def)

text \<open>C9, at the operations \<open>invalid\<close> and \<open>None\<close>.\<close>

theorem C9_router_total_witness:
  "Some (str ''invalid'') \<notin> Some ` set supported_operations \<and>
   router (Some (str ''invalid'')) = str ''invalid_operation'' \<and>
   path_map (router (Some (str ''invalid''))) = Some Invalid_operation \<and>
   None \<notin> Some ` set supported_operations \<and>
   router None = str ''invalid_operation'' \<and>
   path_map (router None) = Some Invalid_operation"
proof -
  have h1: "Some (str ''invalid'') \<notin> Some ` set supported_operations"
    by (simp add: supported_operations_def str_def)
  have h2: "None \<notin> Some ` set supported_operations"
    by auto
  from C9_router_total[of "Some (str ''invalid'')"] C9_router_total[of None] h1 h2
  show ?thesis by blast
qed

subsection \<open>C10: two or more delimiters in the find handler\<close>

text \<open>
  C10. For every raw answer with two or more delimiters, the find handler fails at the
  unpacking of the split answer into two names: it raises \<open>ValueError\<close>, prints nothing and
  issues no lookup.
\<close>

theorem C10_find_two_delimiters:
  "2 \<le> count_list raw_response bar \<Longrightarrow>
     mongo_find raw_response find_one =
       \<lparr>printed = [], store_calls = [], returned = Inl ValueError\<rparr>"
proof -
  assume a: "2 \<le> count_list raw_response bar"
  then have m: "bar \<in> set raw_response"
    by (metis count_list_0_iff not_numeral_le_zero)
  from a have "3 \<le> length (split_on bar raw_response)"
    by (simp add: length_split_on)
  then have "(case split_on bar raw_response of
                [mongo_filter, projection] \<Rightarrow> Inr (mongo_filter, projection)
              | _ \<Rightarrow> Inl ValueError) = Inl ValueError"
    by (auto split: list.splits)
  with m show ?thesis
    by (simp add: mongo_find_def unpack_filter_projection_def)
qed

text \<open>C10, at the answer \<open>{}|{}|{}\<close>.\<close>

theorem C10_find_two_delimiters_witness:
  "2 \<le> count_list (str ''{}|{}|{}'') bar \<and>
   mongo_find (str ''{}|{}|{}'') (Returns PNone) =
     \<lparr>printed = [], store_calls = [], returned = Inl ValueError\<rparr>"
proof -
  have h: "2 \<le> count_list (str ''{}|{}|{}'') bar"
    by (simp add: text_defs)
  from C10_find_two_delimiters[OF h] h show ?thesis by blast
qed

end
